theory Spec2Isabelle
  imports Complex_Main
begin

section \<open>JavaScript values\<close>

text \<open>
  The scoring module (rate-system) computes on JavaScript numbers. A number is modelled as
  a real, or one of the three special values NaN, +Infinity and -Infinity. Arithmetic on
  the finite values is exact: the rounding of IEEE doubles, overflow of finite results to
  an infinity, and the sign of zero are not modelled.
\<close>

datatype jsnum = NaN | PInf | NInf | Fin real

text \<open>A string is its sequence of UTF-16 code units.\<close>

type_synonym jsstring = "nat list"

text \<open>
  The primitive values a field of an input object can hold. A field that is missing reads
  as \<open>Undefined\<close>.
\<close>

datatype jsval = Undefined | Null | JBool bool | JNum jsnum | JStr jsstring

subsection \<open>Number operators\<close>

fun jneg :: "jsnum \<Rightarrow> jsnum" where
  "jneg NaN = NaN"
| "jneg PInf = NInf"
| "jneg NInf = PInf"
| "jneg (Fin a) = Fin (- a)"

fun jadd :: "jsnum \<Rightarrow> jsnum \<Rightarrow> jsnum" where
  "jadd (Fin a) (Fin b) = Fin (a + b)"
| "jadd NaN y = NaN"
| "jadd x NaN = NaN"
| "jadd PInf NInf = NaN"
| "jadd NInf PInf = NaN"
| "jadd PInf y = PInf"
| "jadd x PInf = PInf"
| "jadd NInf y = NInf"
| "jadd x NInf = NInf"

definition jsub :: "jsnum \<Rightarrow> jsnum \<Rightarrow> jsnum" where
  "jsub x y = jadd x (jneg y)"

text \<open>The infinity of a given sign; \<open>sgn_inf True\<close> is +Infinity.\<close>

definition sgn_inf :: "bool \<Rightarrow> jsnum" where
  "sgn_inf pos = (if pos then PInf else NInf)"

fun jmul :: "jsnum \<Rightarrow> jsnum \<Rightarrow> jsnum" where
  "jmul (Fin a) (Fin b) = Fin (a * b)"
| "jmul NaN y = NaN"
| "jmul x NaN = NaN"
| "jmul PInf (Fin b) = (if b = 0 then NaN else sgn_inf (0 < b))"
| "jmul NInf (Fin b) = (if b = 0 then NaN else sgn_inf (b < 0))"
| "jmul (Fin a) PInf = (if a = 0 then NaN else sgn_inf (0 < a))"
| "jmul (Fin a) NInf = (if a = 0 then NaN else sgn_inf (a < 0))"
| "jmul PInf PInf = PInf"
| "jmul NInf NInf = PInf"
| "jmul PInf NInf = NInf"
| "jmul NInf PInf = NInf"

text \<open>
  Division. A zero divisor is read as +0 (the model has no -0); every divisor in this
  module is a non-zero constant or at least 1, so that case is never reached.
\<close>

fun jdiv :: "jsnum \<Rightarrow> jsnum \<Rightarrow> jsnum" where
  "jdiv (Fin a) (Fin b) =
     (if b = 0 then (if a = 0 then NaN else sgn_inf (0 < a)) else Fin (a / b))"
| "jdiv NaN y = NaN"
| "jdiv x NaN = NaN"
| "jdiv (Fin a) y = Fin 0"
| "jdiv PInf (Fin b) = sgn_inf (0 \<le> b)"
| "jdiv NInf (Fin b) = sgn_inf (b < 0)"
| "jdiv x y = NaN"

text \<open>\<open>Math.min\<close>, \<open>Math.max\<close> and \<open>Math.abs\<close>: NaN if an argument is NaN.\<close>

fun jmin :: "jsnum \<Rightarrow> jsnum \<Rightarrow> jsnum" where
  "jmin (Fin a) (Fin b) = Fin (min a b)"
| "jmin NaN y = NaN"
| "jmin x NaN = NaN"
| "jmin NInf y = NInf"
| "jmin x NInf = NInf"
| "jmin PInf y = y"
| "jmin x PInf = x"

fun jmax :: "jsnum \<Rightarrow> jsnum \<Rightarrow> jsnum" where
  "jmax (Fin a) (Fin b) = Fin (max a b)"
| "jmax NaN y = NaN"
| "jmax x NaN = NaN"
| "jmax PInf y = PInf"
| "jmax x PInf = PInf"
| "jmax NInf y = y"
| "jmax x NInf = x"

fun jabs :: "jsnum \<Rightarrow> jsnum" where
  "jabs NaN = NaN"
| "jabs PInf = PInf"
| "jabs NInf = PInf"
| "jabs (Fin a) = Fin \<bar>a\<bar>"

text \<open>The comparisons \<open><\<close> and \<open><=\<close>: false whenever an operand is NaN.\<close>

fun jlt :: "jsnum \<Rightarrow> jsnum \<Rightarrow> bool" where
  "jlt (Fin a) (Fin b) = (a < b)"
| "jlt NaN y = False"
| "jlt x NaN = False"
| "jlt x NInf = False"
| "jlt PInf y = False"
| "jlt x y = True"

fun jle :: "jsnum \<Rightarrow> jsnum \<Rightarrow> bool" where
  "jle (Fin a) (Fin b) = (a \<le> b)"
| "jle NaN y = False"
| "jle x NaN = False"
| "jle NInf y = True"
| "jle x PInf = True"
| "jle x y = False"

definition jgt :: "jsnum \<Rightarrow> jsnum \<Rightarrow> bool" where
  "jgt x y = jlt y x"

text \<open>\<open>Math.round\<close>: the nearest integer, a tie going up.\<close>

fun jround :: "jsnum \<Rightarrow> jsnum" where
  "jround (Fin a) = Fin (of_int \<lfloor>a + 1 / 2\<rfloor>)"
| "jround x = x"

text \<open>The numbers that are falsy in a condition or under \<open>||\<close>: 0 and NaN.\<close>

definition falsy_num :: "jsnum \<Rightarrow> bool" where
  "falsy_num n = (n = NaN \<or> n = Fin 0)"

subsection \<open>Reading numbers from strings\<close>

text \<open>
  The white space skipped by \<open>parseInt\<close>, \<open>parseFloat\<close> and \<open>trim\<close>: tab, line feed,
  vertical tab, form feed, carriage return, space, no-break space, the Unicode space
  separators, the line and paragraph separators and the byte order mark.
\<close>

definition is_ws :: "nat \<Rightarrow> bool" where
  "is_ws c = (c = 9 \<or> c = 10 \<or> c = 11 \<or> c = 12 \<or> c = 13 \<or> c = 32 \<or> c = 160
      \<or> c = 5760 \<or> (8192 \<le> c \<and> c \<le> 8202) \<or> c = 8232 \<or> c = 8233 \<or> c = 8239
      \<or> c = 8287 \<or> c = 12288 \<or> c = 65279)"

definition is_digit :: "nat \<Rightarrow> bool" where
  "is_digit c = (48 \<le> c \<and> c \<le> 57)"

definition trim :: "jsstring \<Rightarrow> jsstring" where
  "trim s = rev (dropWhile is_ws (rev (dropWhile is_ws s)))"

text \<open>The value of a run of decimal digits, most significant first.\<close>

definition digits_value :: "jsstring \<Rightarrow> nat" where
  "digits_value ds = foldl (\<lambda>acc c. 10 * acc + (c - 48)) 0 ds"

text \<open>An optional sign: whether it is a minus, and the rest of the string.\<close>

fun read_sign :: "jsstring \<Rightarrow> bool \<times> jsstring" where
  "read_sign [] = (False, [])"
| "read_sign (c # cs) =
     (if c = 45 then (True, cs) else if c = 43 then (False, cs) else (False, c # cs))"

definition signed :: "bool \<Rightarrow> real \<Rightarrow> real" where
  "signed neg r = (if neg then - r else r)"

text \<open>
  \<open>parseInt(s, 10)\<close>: leading white space, an optional sign, then the longest run of
  decimal digits; NaN when there is no digit.
\<close>

definition parseInt :: "jsstring \<Rightarrow> jsnum" where
  "parseInt s =
     (let (neg, u) = read_sign (dropWhile is_ws s);
          ds = takeWhile is_digit u
      in if ds = [] then NaN else Fin (signed neg (of_nat (digits_value ds))))"

text \<open>
  The exponent part of a decimal literal: \<open>e\<close> or \<open>E\<close>, an optional sign and at least
  one digit; anything else is not an exponent and counts as exponent 0.
\<close>

definition read_exponent :: "jsstring \<Rightarrow> bool \<times> nat" where
  "read_exponent r =
     (case r of
        [] \<Rightarrow> (False, 0)
      | c # cs \<Rightarrow>
          if c = 101 \<or> c = 69
          then (let (neg, u) = read_sign cs in (neg, digits_value (takeWhile is_digit u)))
          else (False, 0))"

text \<open>
  \<open>parseFloat(s)\<close>: leading white space, an optional sign, then \<open>Infinity\<close> or the
  longest prefix that is a decimal literal (digits, an optional fraction, an optional
  exponent); NaN when there is neither.
\<close>

definition parseFloat :: "jsstring \<Rightarrow> jsnum" where
  "parseFloat s =
     (let (neg, u) = read_sign (dropWhile is_ws s)
      in if take 8 u = [73, 110, 102, 105, 110, 105, 116, 121] then sgn_inf (\<not> neg)
         else
           let ip = takeWhile is_digit u;
               r1 = dropWhile is_digit u;
               fp = (case r1 of [] \<Rightarrow> [] | c # cs \<Rightarrow> if c = 46 then takeWhile is_digit cs else []);
               r2 = (case r1 of [] \<Rightarrow> [] | c # cs \<Rightarrow> if c = 46 then dropWhile is_digit cs else r1);
               m = of_nat (digits_value ip) + of_nat (digits_value fp) / 10 ^ length fp;
               (eneg, e) = read_exponent r2
           in if ip = [] \<and> fp = [] then NaN
              else Fin (signed neg (if eneg then m / 10 ^ e else m * 10 ^ e)))"

text \<open>
  The idiom \<open>typeof v === 'string' ? parseFloat(v) : (v || 0)\<close>, and the same with
  \<open>parseInt(v, 10)\<close>. For a value that is not a string, \<open>v || 0\<close> is 0 when \<open>v\<close> is
  missing, null, false, 0 or NaN, and \<open>v\<close> itself otherwise; the value \<open>true\<close> is
  given as the number 1, which is what each later use of the result (a comparison with a
  number, arithmetic, \<open>Math.min\<close>) makes of it.
\<close>

fun or_zero :: "jsval \<Rightarrow> jsnum" where
  "or_zero (JNum n) = (if falsy_num n then Fin 0 else n)"
| "or_zero (JBool b) = (if b then Fin 1 else Fin 0)"
| "or_zero v = Fin 0"

fun float_or_zero :: "jsval \<Rightarrow> jsnum" where
  "float_or_zero (JStr s) = parseFloat s"
| "float_or_zero v = or_zero v"

fun int_or_zero :: "jsval \<Rightarrow> jsnum" where
  "int_or_zero (JStr s) = parseInt s"
| "int_or_zero v = or_zero v"

section \<open>The odds calculator\<close>

text \<open>
  \<open>getAdmissionOdds(studentScore, collegeScore)\<close>. Its first four statements, which
  parse the two scores, clamp them into [0,100] and subtract, are \<open>score_delta\<close>. The
  first, linear value of \<open>odds\<close> in the source is overwritten before it is read and is
  left out.
\<close>

definition score_delta :: "jsval \<Rightarrow> jsval \<Rightarrow> jsnum" where
  "score_delta studentScore collegeScore =
     (let student = float_or_zero studentScore;
          college = float_or_zero collegeScore;
          studentNorm = jmax (Fin 0) (jmin (Fin 100) student);
          collegeNorm = jmax (Fin 0) (jmin (Fin 100) college)
      in jsub studentNorm collegeNorm)"

definition getAdmissionOdds :: "jsval \<Rightarrow> jsval \<Rightarrow> jsnum" where
  "getAdmissionOdds studentScore collegeScore =
     (let delta = score_delta studentScore collegeScore;
          baseOdds = Fin 50;
          deltaMultiplier = Fin (3 / 2);
          sigmoidFactor = Fin (4 / 5);
          normalizedDelta = jdiv delta (Fin 50);
          sigmoidDelta =
            jmul (jdiv normalizedDelta (jadd (Fin 1) (jmul (jabs normalizedDelta) sigmoidFactor)))
              (Fin 50);
          odds = jadd baseOdds (jmul sigmoidDelta deltaMultiplier);
          odds' = jmax (Fin 2) (jmin (Fin 98) odds)
      in jround odds')"

section \<open>The student rater\<close>

text \<open>Truthiness of a primitive value.\<close>

fun truthy :: "jsval \<Rightarrow> bool" where
  "truthy Undefined = False"
| "truthy Null = False"
| "truthy (JBool b) = b"
| "truthy (JNum n) = (\<not> falsy_num n)"
| "truthy (JStr s) = (s \<noteq> [])"

subsection \<open>The activity-strength capability\<close>

text \<open>
  What the chat-completion request does for a given activities text: something in the
  \<open>try\<close> block throws (the request fails, the body is not JSON, the body is null), or
  the response is not ok, or the response is ok and the chain
  \<open>data.choices && data.choices[0] && data.choices[0].message && data.choices[0].message.content\<close>
  has the given value.
\<close>

datatype api_outcome = Throws | HttpError | Content jsval

text \<open>
  \<open>(content || '').trim()\<close>: a falsy content is the empty string; a truthy content that
  is not a string has no \<open>trim\<close>, the call throws, and the \<open>catch\<close> answers for it
  (\<open>None\<close>).
\<close>

fun content_raw :: "jsval \<Rightarrow> jsstring option" where
  "content_raw (JStr s) = Some (trim s)"
| "content_raw v = (if truthy v then None else Some [])"

text \<open>\<open>raw.match(/(\d+)/)\<close>: the first run of decimal digits, empty when there is none.\<close>

definition first_digits :: "jsstring \<Rightarrow> jsstring" where
  "first_digits raw = takeWhile is_digit (dropWhile (\<lambda>c. \<not> is_digit c) raw)"

text \<open>
  \<open>getActivitiesScore(activitiesText)\<close>, with the module's \<open>GPT_API_KEY\<close> and the
  behaviour of the remote service as parameters.
\<close>

definition getActivitiesScore :: "jsstring \<Rightarrow> (jsstring \<Rightarrow> api_outcome) \<Rightarrow> jsstring \<Rightarrow> jsnum" where
  "getActivitiesScore GPT_API_KEY api activitiesText =
     (if activitiesText = [] \<or> trim activitiesText = [] then Fin (11 / 2)
      else if GPT_API_KEY = [] then Fin (11 / 2)
      else
        (case api activitiesText of
           Throws \<Rightarrow> Fin (11 / 2)
         | HttpError \<Rightarrow> Fin (11 / 2)
         | Content v \<Rightarrow>
             (case content_raw v of
                None \<Rightarrow> Fin (11 / 2)
              | Some raw \<Rightarrow>
                  let match = first_digits raw;
                      score = (if match = [] then NaN else parseInt match)
                  in if score = NaN then Fin (11 / 2)
                     else jmin (Fin 10) (jmax (Fin 1) score))))"

subsection \<open>AP courses and activities\<close>

record ap_course =
  course :: jsval
  score :: jsval

text \<open>An activity; a field that is missing is \<open>None\<close>.\<close>

record activity =
  hours :: "jsstring option"
  description :: "jsstring option"

text \<open>
  The \<open>activities\<close> field: an array (an entry that is null or undefined is \<open>None\<close>),
  the legacy text, or a value that is neither an array nor a string.
\<close>

datatype activities_input =
  ActivitiesList "activity option list"
| ActivitiesText jsstring
| ActivitiesOther

subsection \<open>The activities text\<close>

fun join :: "jsstring \<Rightarrow> jsstring list \<Rightarrow> jsstring" where
  "join sep [] = []"
| "join sep [x] = x"
| "join sep (x # y # ys) = x @ sep @ join sep (y # ys)"

text \<open>
  One entry of the array under \<open>.filter(a => a && a.description).map(...)\<close>: nothing
  when the entry or its description is missing or empty; otherwise the line made of the
  hours, when there are any, followed by \<open>hrs\<close> between two spaces, an em dash (code
  unit 8212) and a space, and then the description.
\<close>

fun activity_line :: "activity option \<Rightarrow> jsstring option" where
  "activity_line None = None"
| "activity_line (Some a) =
     (case description a of
        None \<Rightarrow> None
      | Some d \<Rightarrow>
          if d = [] then None
          else
            let h = (case hours a of
                       None \<Rightarrow> []
                     | Some h \<Rightarrow> if h = [] then [] else h @ [32, 104, 114, 115, 32, 8212, 32])
            in Some (h @ d))"

fun activities_text :: "activities_input option \<Rightarrow> jsstring" where
  "activities_text None = []"
| "activities_text (Some (ActivitiesList entries)) = join [10] (List.map_filter activity_line entries)"
| "activities_text (Some (ActivitiesText t)) = t"
| "activities_text (Some ActivitiesOther) = []"

subsection \<open>The normalized dimensions\<close>

definition gpaNorm :: "jsval \<Rightarrow> jsval \<Rightarrow> jsnum" where
  "gpaNorm gpa weighted =
     (let gpaNum = float_or_zero gpa;
          gpaMax = (if truthy weighted then 5 else 4)
      in if jgt gpaNum (Fin 0) then jmin (Fin 1) (jdiv gpaNum (Fin gpaMax)) else Fin 0)"

definition isUntaken :: "jsval \<Rightarrow> jsval \<Rightarrow> bool" where
  "isUntaken sat act =
     (let satNum = int_or_zero sat;
          actNum = int_or_zero act
      in (satNum = Fin 0 \<or> sat = JStr [] \<or> sat = Null \<or> sat = Undefined)
         \<and> (actNum = Fin 0 \<or> act = JStr [] \<or> act = Null \<or> act = Undefined))"

definition satNorm :: "jsval \<Rightarrow> jsval \<Rightarrow> jsnum" where
  "satNorm sat act =
     (let satNum = int_or_zero sat
      in if isUntaken sat act then jmin (Fin 1) (Fin ((800 - 400) / (1600 - 400)))
         else if jgt satNum (Fin 0)
              then jmin (Fin 1) (jdiv (jsub satNum (Fin 400)) (Fin (1600 - 400)))
              else Fin 0)"

definition actNorm :: "jsval \<Rightarrow> jsval \<Rightarrow> jsnum" where
  "actNorm sat act =
     (let actNum = int_or_zero act
      in if \<not> isUntaken sat act \<and> jgt actNum (Fin 0)
         then jmin (Fin 1) (jdiv (jsub actNum (Fin 1)) (Fin (36 - 1)))
         else Fin 0)"

definition testNorm :: "jsval \<Rightarrow> jsval \<Rightarrow> jsnum" where
  "testNorm sat act = jmax (satNorm sat act) (actNorm sat act)"

text \<open>The filter \<open>c && c.course\<close>, keeping the courses themselves.\<close>

fun validAps :: "ap_course option list \<Rightarrow> ap_course list" where
  "validAps [] = []"
| "validAps (None # cs) = validAps cs"
| "validAps (Some c # cs) = (if truthy (course c) then c # validAps cs else validAps cs)"

text \<open>
  What one course adds to the total: its score read as a number when that is finite,
  and 0 otherwise (no score, a string that is not a number, NaN, an infinity, a boolean).
\<close>

fun ap_score :: "jsval \<Rightarrow> real" where
  "ap_score (JStr s) = (case parseFloat s of Fin r \<Rightarrow> r | _ \<Rightarrow> 0)"
| "ap_score (JNum n) = (case n of Fin r \<Rightarrow> r | _ \<Rightarrow> 0)"
| "ap_score v = 0"

definition apNorm :: "ap_course option list option \<Rightarrow> jsnum" where
  "apNorm apCourses =
     (let aps = validAps (case apCourses of None \<Rightarrow> [] | Some cs \<Rightarrow> cs);
          apCount = length aps;
          total = foldl (\<lambda>sum c. sum + ap_score (score c)) 0 aps;
          apAvgScore = (if 0 < apCount then total / real apCount else 0);
          apCountNorm = min 1 (real apCount / 10);
          apScoreNorm = min 1 (apAvgScore / 5)
      in Fin (if 0 < apCount then 1 / 2 * apCountNorm + 1 / 2 * apScoreNorm else 0))"

definition activitiesNorm :: "jsstring \<Rightarrow> (jsstring \<Rightarrow> api_outcome) \<Rightarrow> jsstring \<Rightarrow> jsnum" where
  "activitiesNorm GPT_API_KEY api activitiesText =
     jdiv (getActivitiesScore GPT_API_KEY api activitiesText) (Fin 10)"

subsection \<open>The student record and the composite\<close>

text \<open>
  The argument of \<open>rateStudent\<close>. \<open>apCourses\<close> and \<open>activities\<close> are \<open>None\<close> when the
  field is missing; an \<open>apCourses\<close> that is null is \<open>None\<close> too, since
  \<open>apCourses || []\<close> makes both the empty array. An entry of \<open>apCourses\<close> that is null
  or undefined is \<open>None\<close>.
\<close>

record student =
  gpa :: jsval
  weighted :: jsval
  sat :: jsval
  act :: jsval
  apCourses :: "ap_course option list option"
  activities :: "activities_input option"

text \<open>The object \<open>{}\<close> that stands in for a student that is null or undefined.\<close>

definition empty_student :: student where
  "empty_student = \<lparr>gpa = Undefined, weighted = Undefined, sat = Undefined, act = Undefined,
     apCourses = None, activities = None\<rparr>"

text \<open>The weighted sum of the four dimensions, with the weights of \<open>WEIGHTS\<close>.\<close>

definition student_composite :: "jsnum \<Rightarrow> jsnum \<Rightarrow> jsnum \<Rightarrow> jsnum \<Rightarrow> jsnum" where
  "student_composite g t a v =
     jadd (jadd (jadd (jmul (Fin (35 / 100)) g) (jmul (Fin (30 / 100)) t))
        (jmul (Fin (15 / 100)) a)) (jmul (Fin (20 / 100)) v)"

text \<open>The destructuring of the argument: \<open>weighted\<close> defaults to true when it is missing.\<close>

definition weighted_or_default :: "student \<Rightarrow> jsval" where
  "weighted_or_default s = (if weighted s = Undefined then JBool True else weighted s)"

definition composite_of :: "jsstring \<Rightarrow> (jsstring \<Rightarrow> api_outcome) \<Rightarrow> student \<Rightarrow> jsnum" where
  "composite_of GPT_API_KEY api s =
     student_composite (gpaNorm (gpa s) (weighted_or_default s)) (testNorm (sat s) (act s))
       (apNorm (apCourses s)) (activitiesNorm GPT_API_KEY api (activities_text (activities s)))"

definition rateStudent :: "jsstring \<Rightarrow> (jsstring \<Rightarrow> api_outcome) \<Rightarrow> student option \<Rightarrow> jsnum" where
  "rateStudent GPT_API_KEY api student =
     (let s = (case student of None \<Rightarrow> empty_student | Some s \<Rightarrow> s);
          composite = composite_of GPT_API_KEY api s
      in jround (jmul composite (Fin 100)))"

section \<open>The college rater\<close>

record college =
  acceptance_rate :: jsval
  sat_50th_percentile :: jsval
  act_50th_percentile :: jsval
  graduation_rate :: jsval
  retention_rate :: jsval
  median_earnings_10_years :: jsval
  enrollment :: jsval
  student_faculty_ratio :: jsval

definition empty_college :: college where
  "empty_college = \<lparr>acceptance_rate = Undefined, sat_50th_percentile = Undefined,
     act_50th_percentile = Undefined, graduation_rate = Undefined, retention_rate = Undefined,
     median_earnings_10_years = Undefined, enrollment = Undefined,
     student_faculty_ratio = Undefined\<rparr>"

text \<open>
  The helper \<open>parseNum\<close>: null (\<open>None\<close>) for null, undefined and the empty string,
  and for anything that is not a finite number after a string has gone through
  \<open>parseFloat\<close>; a boolean is not a number for \<open>Number.isFinite\<close>.
\<close>

fun parseNum :: "jsval \<Rightarrow> real option" where
  "parseNum Null = None"
| "parseNum Undefined = None"
| "parseNum (JStr s) =
     (if s = [] then None else (case parseFloat s of Fin r \<Rightarrow> Some r | _ \<Rightarrow> None))"
| "parseNum (JNum n) = (case n of Fin r \<Rightarrow> Some r | _ \<Rightarrow> None)"
| "parseNum (JBool b) = None"

definition acceptanceNorm :: "jsval \<Rightarrow> real" where
  "acceptanceNorm v =
     (case parseNum v of
        None \<Rightarrow> 0
      | Some acceptanceRate \<Rightarrow>
          if 0 \<le> acceptanceRate \<and> acceptanceRate \<le> 1
          then (if acceptanceRate < 2 / 10 then min 1 ((1 - acceptanceRate) * (12 / 10))
                else 1 - acceptanceRate)
          else 0)"

definition college_satNorm :: "jsval \<Rightarrow> real" where
  "college_satNorm v =
     (case parseNum v of
        None \<Rightarrow> 0
      | Some satScore \<Rightarrow>
          if 400 \<le> satScore \<and> satScore \<le> 1600 then (satScore - 400) / (1600 - 400) else 0)"

definition college_actNorm :: "jsval \<Rightarrow> real" where
  "college_actNorm v =
     (case parseNum v of
        None \<Rightarrow> 0
      | Some actScore \<Rightarrow>
          if 1 \<le> actScore \<and> actScore \<le> 36 then (actScore - 1) / (36 - 1) else 0)"

definition college_testNorm :: "jsval \<Rightarrow> jsval \<Rightarrow> real" where
  "college_testNorm s a = max (college_satNorm s) (college_actNorm a)"

text \<open>The graduation rate and the retention rate go through the same test.\<close>

definition rateNorm :: "jsval \<Rightarrow> real" where
  "rateNorm v =
     (case parseNum v of
        None \<Rightarrow> 0
      | Some rate \<Rightarrow> if 0 \<le> rate \<and> rate \<le> 1 then rate else 0)"

definition earningsNorm :: "jsval \<Rightarrow> real" where
  "earningsNorm v =
     (case parseNum v of
        None \<Rightarrow> 0
      | Some earnings \<Rightarrow>
          if 0 < earnings
          then (let minEarnings = 30000; maxEarnings = 150000
                in min 1 (max 0 ((earnings - minEarnings) / (maxEarnings - minEarnings))))
          else 0)"

definition enrollmentNorm :: "jsval \<Rightarrow> real" where
  "enrollmentNorm v =
     (case parseNum v of
        None \<Rightarrow> 0
      | Some enroll \<Rightarrow>
          if 0 < enroll
          then (if 5000 \<le> enroll \<and> enroll \<le> 30000
                then 8 / 10 + 2 / 10 * (1 - \<bar>enroll - 15000\<bar> / 15000)
                else if 30000 < enroll then 7 / 10
                else min (6 / 10) (enroll / 5000))
          else 0)"

definition ratioNorm :: "jsval \<Rightarrow> real" where
  "ratioNorm v =
     (case parseNum v of
        None \<Rightarrow> 0
      | Some ratio \<Rightarrow> if 0 < ratio then max 0 (min 1 (1 - (ratio - 5) / 20)) else 0)"

definition college_composite :: "college \<Rightarrow> real" where
  "college_composite c =
     30 / 100 * acceptanceNorm (acceptance_rate c)
     + 25 / 100 * college_testNorm (sat_50th_percentile c) (act_50th_percentile c)
     + 15 / 100 * rateNorm (graduation_rate c)
     + 10 / 100 * rateNorm (retention_rate c)
     + 10 / 100 * earningsNorm (median_earnings_10_years c)
     + 5 / 100 * enrollmentNorm (enrollment c)
     + 5 / 100 * ratioNorm (student_faculty_ratio c)"

definition rateCollege :: "college option \<Rightarrow> jsnum" where
  "rateCollege college =
     (let c = (case college of None \<Rightarrow> empty_college | Some c \<Rightarrow> c);
          composite = college_composite c
      in jround (Fin (composite * 100)))"

section \<open>Notions used in the statements\<close>

text \<open>A number that is finite and lies between two bounds.\<close>

fun in_range :: "real \<Rightarrow> real \<Rightarrow> jsnum \<Rightarrow> bool" where
  "in_range lo hi (Fin r) = (lo \<le> r \<and> r \<le> hi)"
| "in_range lo hi x = False"

text \<open>
  A test score that is absent (undefined, null), empty (the empty string) or zero (the
  number 0, or a string that \<open>parseInt\<close> reads as 0).
\<close>

fun absent_empty_or_zero :: "jsval \<Rightarrow> bool" where
  "absent_empty_or_zero Undefined = True"
| "absent_empty_or_zero Null = True"
| "absent_empty_or_zero (JStr s) = (s = [] \<or> parseInt s = Fin 0)"
| "absent_empty_or_zero (JNum n) = (n = Fin 0)"
| "absent_empty_or_zero (JBool b) = False"

text \<open>
  The clamped score that \<open>getAdmissionOdds\<close> makes of a number argument, and the curve
  it applies to the difference of two clamped scores before the final clamp and rounding.
\<close>

definition score_of :: "jsnum \<Rightarrow> real" where
  "score_of n = (case n of Fin a \<Rightarrow> max 0 (min 100 a) | PInf \<Rightarrow> 100 | _ \<Rightarrow> 0)"

definition odds_curve :: "real \<Rightarrow> real" where
  "odds_curve d = 50 + d / 50 / (1 + \<bar>d / 50\<bar> * (4 / 5)) * 50 * (3 / 2)"

subsection \<open>Example inputs\<close>

text \<open>A service that answers every request with the same text.\<close>

definition reply :: "jsstring \<Rightarrow> jsstring \<Rightarrow> api_outcome" where
  "reply c t = Content (JStr c)"

text \<open>The student \<open>{apCourses: [{course: 'Calc', score: -100}]}\<close>.\<close>

definition negative_ap_student :: student where
  "negative_ap_student = empty_student\<lparr>apCourses :=
     Some [Some \<lparr>course = JStr [67, 97, 108, 99], score = JNum (Fin (- 100))\<rparr>]\<rparr>"

text \<open>
  The college \<open>{acceptance_rate: 0.05, sat_50th_percentile: '1500', graduation_rate: 0.97,
  enrollment: 15000, student_faculty_ratio: 6}\<close>; the other fields are missing.
\<close>

definition selective_college :: college where
  "selective_college = empty_college\<lparr>acceptance_rate := JNum (Fin (5 / 100)),
     sat_50th_percentile := JStr [49, 53, 48, 48], graduation_rate := JNum (Fin (97 / 100)),
     enrollment := JNum (Fin 15000), student_faculty_ratio := JNum (Fin 6)\<rparr>"

section \<open>The odds calculator: proofs\<close>

lemma score_delta_num: "score_delta (JNum x) (JNum y) = Fin (score_of x - score_of y)"
  by (cases x; cases y) (auto simp: score_delta_def jsub_def falsy_num_def score_of_def)

lemma denom_pos: "0 < 1 + \<bar>d / 50\<bar> * (4 / 5 :: real)"
proof -
  have "0 \<le> \<bar>d / 50\<bar> * (4 / 5 :: real)" by simp
  then show ?thesis by linarith
qed

text \<open>Once the difference is a finite number, the result is the rounded, clamped curve.\<close>

lemma odds_of_delta:
  assumes "score_delta s c = Fin d"
  shows "getAdmissionOdds s c = Fin (of_int \<lfloor>max 2 (min 98 (odds_curve d)) + 1 / 2\<rfloor>)"
proof -
  have nz: "1 + \<bar>d\<bar> * 4 / 250 \<noteq> (0::real)" using denom_pos [of d] by simp
  show ?thesis
    using nz by (simp add: getAdmissionOdds_def assms odds_curve_def)
qed

lemma odds_num:
  "getAdmissionOdds (JNum x) (JNum y) =
     Fin (of_int \<lfloor>max 2 (min 98 (odds_curve (score_of x - score_of y))) + 1 / 2\<rfloor>)"
  by (rule odds_of_delta) (rule score_delta_num)

text \<open>The curve \<open>x / (1 + 0.8 |x|)\<close> is increasing: cross-multiplied, by the signs.\<close>

lemma sigmoid_cross:
  fixes x y :: real
  assumes "x \<le> y"
  shows "x * (1 + \<bar>y\<bar> * (4 / 5)) \<le> y * (1 + \<bar>x\<bar> * (4 / 5))"
proof -
  consider "0 \<le> x" | "y \<le> 0" | "x < 0" "0 < y" by linarith
  then show ?thesis
  proof cases
    case 1
    with assms have "\<bar>x\<bar> = x" "\<bar>y\<bar> = y" by simp_all
    with assms show ?thesis by (simp add: algebra_simps)
  next
    case 2
    with assms have "\<bar>x\<bar> = - x" "\<bar>y\<bar> = - y" by simp_all
    with assms show ?thesis by (simp add: algebra_simps)
  next
    case 3
    then have ab: "\<bar>x\<bar> = - x" "\<bar>y\<bar> = y" by simp_all
    from 3 have "x * y \<le> 0" by (simp add: mult_le_0_iff)
    with assms show ?thesis unfolding ab by (simp add: algebra_simps)
  qed
qed

lemma frac_le_cross:
  fixes a b p q :: real
  assumes "0 < p" and "0 < q" and "a * q \<le> b * p"
  shows "a / p \<le> b / q"
  using assms by (simp add: field_simps)

lemma odds_curve_mono:
  assumes "d1 \<le> d2"
  shows "odds_curve d1 \<le> odds_curve d2"
proof -
  let ?x = "d1 / 50" and ?y = "d2 / 50"
  have xy: "?x \<le> ?y" using assms by simp
  have px: "0 < 1 + \<bar>?x\<bar> * (4 / 5)" and py: "0 < 1 + \<bar>?y\<bar> * (4 / 5)"
    by (rule denom_pos)+
  have "?x / (1 + \<bar>?x\<bar> * (4 / 5)) \<le> ?y / (1 + \<bar>?y\<bar> * (4 / 5))"
    by (rule frac_le_cross [OF px py sigmoid_cross [OF xy]])
  then have "?x / (1 + \<bar>?x\<bar> * (4 / 5)) * 50 \<le> ?y / (1 + \<bar>?y\<bar> * (4 / 5)) * 50"
    by (rule mult_right_mono) simp
  then have "?x / (1 + \<bar>?x\<bar> * (4 / 5)) * 50 * (3 / 2) \<le> ?y / (1 + \<bar>?y\<bar> * (4 / 5)) * 50 * (3 / 2)"
    by (rule mult_right_mono) simp
  then show ?thesis unfolding odds_curve_def by (rule add_left_mono)
qed

lemma odds_curve_sym: "odds_curve (- d) = 100 - odds_curve d"
  by (simp add: odds_curve_def)

lemma round_sum:
  fixes y :: real
  shows "\<bar>\<lfloor>y + 1 / 2\<rfloor> + \<lfloor>(100 - y) + 1 / 2\<rfloor> - 100\<bar> \<le> 1"
  by linarith

lemma clamp_sym:
  fixes v :: real
  shows "max 2 (min 98 (100 - v)) = 100 - max 2 (min 98 v)"
  by (simp add: max_def min_def)

lemma rounded_clamp_range:
  fixes v :: real
  shows "2 \<le> \<lfloor>max 2 (min 98 v) + 1 / 2\<rfloor> \<and> \<lfloor>max 2 (min 98 v) + 1 / 2\<rfloor> \<le> 98"
  by (simp add: max_def min_def)

text \<open>
  C3 (fails on the code). The claim: an input that is not numeric is treated as 0, so
  that a string that is not a number still gives an integer percentage. In the code a
  string goes through \<open>parseFloat\<close> with no test of the result: for the string \<open>abc\<close>
  it is NaN, which passes through both clamps and all the arithmetic, and the odds against
  a college score of 50 are NaN, where the number 0 in its place gives 8.
\<close>

theorem odds_of_non_numeric_string:
  "getAdmissionOdds (JStr [97, 98, 99]) (JNum (Fin 50)) = NaN
   \<and> getAdmissionOdds (JNum (Fin 0)) (JNum (Fin 50)) = Fin 8"
  by (simp add: getAdmissionOdds_def score_delta_def parseFloat_def is_ws_def is_digit_def
      jsub_def falsy_num_def)

text \<open>
  C4. For any two numbers \<open>a\<close> and \<open>b\<close> (in [0,100] or not: they are clamped first),
  \<open>getAdmissionOdds(a, b)\<close> and \<open>getAdmissionOdds(b, a)\<close> are integers whose sum is
  within 1 of 100.
\<close>

theorem odds_symmetric:
  "\<exists>m n. getAdmissionOdds (JNum x) (JNum y) = Fin (of_int m)
        \<and> getAdmissionOdds (JNum y) (JNum x) = Fin (of_int n)
        \<and> \<bar>m + n - 100\<bar> \<le> 1"
proof -
  let ?v = "max 2 (min 98 (odds_curve (score_of x - score_of y)))"
  have "odds_curve (score_of y - score_of x) = 100 - odds_curve (score_of x - score_of y)"
    using odds_curve_sym [of "score_of x - score_of y"] by simp
  then have "max 2 (min 98 (odds_curve (score_of y - score_of x))) = 100 - ?v"
    by (simp only: clamp_sym)
  then have "getAdmissionOdds (JNum y) (JNum x) = Fin (of_int \<lfloor>(100 - ?v) + 1 / 2\<rfloor>)"
    by (simp only: odds_num)
  moreover have "getAdmissionOdds (JNum x) (JNum y) = Fin (of_int \<lfloor>?v + 1 / 2\<rfloor>)"
    by (simp only: odds_num)
  ultimately show ?thesis using round_sum [of ?v] by blast
qed

theorem odds_symmetric_witness:
  "\<exists>m n. getAdmissionOdds (JNum (Fin 30)) (JNum (Fin 80)) = Fin (of_int m)
        \<and> getAdmissionOdds (JNum (Fin 80)) (JNum (Fin 30)) = Fin (of_int n)
        \<and> \<bar>m + n - 100\<bar> \<le> 1"
  by (rule odds_symmetric)

text \<open>
  C5. For number inputs, the odds do not decrease when the difference of the clamped
  scores does not: if the difference for \<open>(s1, c1)\<close> is at most the one for \<open>(s2, c2)\<close>
  then \<open>getAdmissionOdds(s1, c1) <= getAdmissionOdds(s2, c2)\<close>.
\<close>

theorem odds_monotone:
  assumes "jle (score_delta (JNum s1) (JNum c1)) (score_delta (JNum s2) (JNum c2))"
  shows "jle (getAdmissionOdds (JNum s1) (JNum c1)) (getAdmissionOdds (JNum s2) (JNum c2))"
proof -
  from assms have "score_of s1 - score_of c1 \<le> score_of s2 - score_of c2"
    by (simp add: score_delta_num)
  then have "odds_curve (score_of s1 - score_of c1) \<le> odds_curve (score_of s2 - score_of c2)"
    by (rule odds_curve_mono)
  then have "max 2 (min 98 (odds_curve (score_of s1 - score_of c1))) + 1 / 2
      \<le> max 2 (min 98 (odds_curve (score_of s2 - score_of c2))) + 1 / 2"
    by (simp add: max_def min_def)
  then show ?thesis by (simp add: odds_num floor_mono)
qed

theorem odds_monotone_witness:
  "jle (score_delta (JNum (Fin 40)) (JNum (Fin 60))) (score_delta (JNum (Fin 70)) (JNum (Fin 50)))
   \<and> jle (getAdmissionOdds (JNum (Fin 40)) (JNum (Fin 60)))
        (getAdmissionOdds (JNum (Fin 70)) (JNum (Fin 50)))"
proof -
  have h: "jle (score_delta (JNum (Fin 40)) (JNum (Fin 60)))
      (score_delta (JNum (Fin 70)) (JNum (Fin 50)))"
    by (simp add: score_delta_def jsub_def falsy_num_def)
  show ?thesis by (rule conjI [OF h odds_monotone [OF h]])
qed

text \<open>
  C6. Equal scores give even odds: \<open>getAdmissionOdds(s, s)\<close> is exactly 50, for every
  number \<open>s\<close> (those of [0,100] among them); in particular \<open>getAdmissionOdds(70, 70) = 50\<close>.
\<close>

theorem equal_scores_even_odds: "getAdmissionOdds (JNum n) (JNum n) = Fin 50"
  by (simp add: odds_num odds_curve_def)

theorem equal_scores_even_odds_witness:
  "getAdmissionOdds (JNum (Fin 70)) (JNum (Fin 70)) = Fin 50"
  by (rule equal_scores_even_odds)

text \<open>
  C7. For number inputs, \<open>getAdmissionOdds\<close> returns an integer between 2 and 98; in
  particular \<open>getAdmissionOdds(100, 0) <= 98\<close> and \<open>getAdmissionOdds(0, 100) >= 2\<close>.
\<close>

theorem odds_range:
  "\<exists>k. getAdmissionOdds (JNum x) (JNum y) = Fin (of_int k) \<and> 2 \<le> k \<and> k \<le> 98"
  unfolding odds_num using rounded_clamp_range by blast

theorem odds_range_witness:
  "(\<exists>k. getAdmissionOdds (JNum (Fin 100)) (JNum (Fin 0)) = Fin (of_int k) \<and> 2 \<le> k \<and> k \<le> 98)
   \<and> (\<exists>k. getAdmissionOdds (JNum (Fin 0)) (JNum (Fin 100)) = Fin (of_int k) \<and> 2 \<le> k \<and> k \<le> 98)"
  by (rule conjI [OF odds_range odds_range])

section \<open>The student rater: proofs\<close>

lemma in_rangeE:
  assumes "in_range lo hi x"
  obtains r where "x = Fin r" and "lo \<le> r" and "r \<le> hi"
  using assms by (cases x) auto

subsection \<open>The four dimensions\<close>

lemma gpaNorm_range: "in_range 0 1 (gpaNorm g w)"
  by (cases "float_or_zero g") (auto simp: gpaNorm_def jgt_def sgn_inf_def Let_def)

text \<open>
  The SAT and ACT dimensions are capped at 1 but have no floor at 0: a positive score
  below the scale (under 400, under 1) gives a negative value.
\<close>

lemma satNorm_fin: "\<exists>lo. in_range lo 1 (satNorm s a)"
  by (cases "int_or_zero s")
    (auto simp: satNorm_def jgt_def jsub_def sgn_inf_def Let_def intro: exI [of _ "-1"])

lemma actNorm_range: "in_range (- (1 / 35)) 1 (actNorm s a)"
  by (cases "int_or_zero a") (auto simp: actNorm_def jgt_def jsub_def sgn_inf_def Let_def)

lemma testNorm_range: "in_range (- (1 / 35)) 1 (testNorm s a)"
proof -
  obtain lo where "in_range lo 1 (satNorm s a)" using satNorm_fin by blast
  then obtain r1 where r1: "satNorm s a = Fin r1" "r1 \<le> 1" by (rule in_rangeE)
  obtain r2 where r2: "actNorm s a = Fin r2" "- (1 / 35) \<le> r2" "r2 \<le> 1"
    using actNorm_range by (rule in_rangeE)
  show ?thesis using r1 r2 by (simp add: testNorm_def)
qed

lemma apNorm_fin: "\<exists>r. apNorm cs = Fin r"
  by (simp add: apNorm_def Let_def)

subsection \<open>The activities score\<close>

lemma clamp_1_10: "x \<noteq> NaN \<Longrightarrow> in_range 1 10 (jmin (Fin 10) (jmax (Fin 1) x))"
  by (cases x) auto

lemma getActivitiesScore_range: "in_range 1 10 (getActivitiesScore key api text)"
  unfolding getActivitiesScore_def Let_def
  using clamp_1_10
  by (auto split: api_outcome.splits option.splits simp del: jmin.simps jmax.simps)

lemma activitiesNorm_range: "in_range (1 / 10) 1 (activitiesNorm key api text)"
proof -
  obtain v where v: "getActivitiesScore key api text = Fin v" "1 \<le> v" "v \<le> 10"
    using getActivitiesScore_range by (rule in_rangeE)
  then show ?thesis by (simp add: activitiesNorm_def)
qed

text \<open>What \<open>parseInt\<close> makes of the digits the regular expression matched.\<close>

lemma not_ws_digit: "is_digit c \<Longrightarrow> \<not> is_ws c"
  by (auto simp: is_digit_def is_ws_def)

lemma parseInt_digits:
  assumes "ds \<noteq> []" and "\<forall>c\<in>set ds. is_digit c"
  shows "parseInt ds = Fin (real (digits_value ds))"
proof -
  obtain d rest where ds: "ds = d # rest" using assms(1) by (cases ds) auto
  have d: "is_digit d" using assms(2) ds by simp
  have ws: "dropWhile is_ws ds = ds" using d ds not_ws_digit by simp
  have sg: "read_sign ds = (False, ds)" using d ds by (auto simp: is_digit_def)
  have tk: "takeWhile is_digit ds = ds" using assms(2) by (simp add: takeWhile_eq_all_conv)
  show ?thesis using assms(1) by (simp add: parseInt_def ws sg tk signed_def)
qed

lemma parseInt_first_digits:
  assumes "first_digits raw \<noteq> []"
  shows "parseInt (first_digits raw) = Fin (real (digits_value (first_digits raw)))"
proof (rule parseInt_digits [OF assms])
  show "\<forall>c\<in>set (first_digits raw). is_digit c"
    by (auto simp: first_digits_def dest: set_takeWhileD)
qed

subsection \<open>The composite and the score\<close>

lemma round_percent:
  fixes c :: real
  assumes "0 \<le> c" and "c \<le> 1"
  shows "0 \<le> \<lfloor>c * 100 + 1 / 2\<rfloor> \<and> \<lfloor>c * 100 + 1 / 2\<rfloor> \<le> 100"
  using assms by linarith

lemma untaken_of_absent:
  assumes "absent_empty_or_zero s" and "absent_empty_or_zero a"
  shows "isUntaken s a"
  using assms by (cases s; cases a) (auto simp: isUntaken_def falsy_num_def)

lemma testNorm_untaken: "isUntaken s a \<Longrightarrow> testNorm s a = Fin (1 / 3)"
  by (simp add: testNorm_def satNorm_def actNorm_def)

subsection \<open>The claims on the student rater\<close>

text \<open>
  C1 (fails on the code). The claim: every normalized dimension lies in [0,1] whatever
  the input. In \<open>rateStudent\<close> the test and AP dimensions are capped at 1 by
  \<open>Math.min\<close> but have no floor. With an SAT of 200 and an ACT of 0.5 the test
  dimension is \<open>max (-1/6) (-1/70) = -1/70\<close>; with one AP course whose score is -1 the
  AP dimension is \<open>0.5 * 0.1 + 0.5 * (-0.2) = -1/20\<close>.
\<close>

theorem student_dimensions_below_zero:
  "testNorm (JNum (Fin 200)) (JNum (Fin (1 / 2))) = Fin (- (1 / 70))
   \<and> apNorm (Some [Some \<lparr>course = JStr [67, 97, 108, 99], score = JNum (Fin (- 1))\<rparr>])
       = Fin (- (1 / 20))"
  by (simp add: testNorm_def satNorm_def actNorm_def isUntaken_def falsy_num_def jgt_def jsub_def
      apNorm_def)

text \<open>
  C2 (fails on the code). The claim: for every student input whose fields are absent or
  of their documented shape, \<open>rateStudent\<close> returns an integer between 0 and 100. An
  AP score is documented as a string or a number, and the AP dimension has no floor (C1):
  for a student with nothing but one AP course scored -100 the composite is
  \<open>0.30 * (1/3) + 0.15 * (0.05 - 10) + 0.20 * 0.55 = -1.2825\<close> and the rating is -128.
\<close>

theorem negative_ap_score_negative_rating:
  "rateStudent [] (\<lambda>t. Throws) (Some negative_ap_student) = Fin (- 128)"
  by (simp add: rateStudent_def composite_of_def student_composite_def empty_student_def
      negative_ap_student_def weighted_or_default_def gpaNorm_def testNorm_def satNorm_def
      actNorm_def isUntaken_def apNorm_def activitiesNorm_def getActivitiesScore_def jgt_def)

text \<open>
  C10 (as amended). When the service answers with a text, the integer that
  \<open>getActivitiesScore\<close> takes from it is the first run of decimal digits, a sign before
  it ignored, and that integer is clamped into [1,10]: a reply of 0 or 12 gives 1 or 10,
  neither the raw value nor the fallback. For every input, key and behaviour of the
  service, the activities score lies in [1,10] and the activities dimension in [0.1, 1].
\<close>

theorem activities_score_clamped:
  "(trim text \<noteq> [] \<and> key \<noteq> [] \<and> api text = Content (JStr c) \<and> first_digits (trim c) \<noteq> []
      \<longrightarrow> getActivitiesScore key api text
            = Fin (min 10 (max 1 (real (digits_value (first_digits (trim c)))))))
   \<and> in_range 1 10 (getActivitiesScore key api text)
   \<and> in_range (1 / 10) 1 (activitiesNorm key api text)"
proof (intro conjI impI)
  assume h: "trim text \<noteq> [] \<and> key \<noteq> [] \<and> api text = Content (JStr c)
      \<and> first_digits (trim c) \<noteq> []"
  then have "text \<noteq> []" by (auto simp: trim_def)
  with h show "getActivitiesScore key api text
      = Fin (min 10 (max 1 (real (digits_value (first_digits (trim c))))))"
    by (simp add: getActivitiesScore_def parseInt_first_digits)
next
  show "in_range 1 10 (getActivitiesScore key api text)" by (rule getActivitiesScore_range)
next
  show "in_range (1 / 10) 1 (activitiesNorm key api text)" by (rule activitiesNorm_range)
qed

theorem activities_score_clamped_witness:
  "trim [97] \<noteq> [] \<and> [107] \<noteq> ([] :: jsstring)
   \<and> first_digits (trim [49, 50]) \<noteq> [] \<and> first_digits (trim [48]) \<noteq> []
   \<and> getActivitiesScore [107] (\<lambda>t. Content (JStr [49, 50])) [97] = Fin 10
   \<and> getActivitiesScore [107] (\<lambda>t. Content (JStr [48])) [97] = Fin 1"
proof -
  have t: "trim [97] \<noteq> []" and k: "[107] \<noteq> ([] :: jsstring)"
    by (simp_all add: trim_def is_ws_def)
  have d12: "first_digits (trim [49, 50]) \<noteq> []" and d0: "first_digits (trim [48]) \<noteq> []"
    by (simp_all add: trim_def is_ws_def first_digits_def is_digit_def)
  have v12: "Fin (min 10 (max 1 (real (digits_value (first_digits (trim [49, 50])))))) = Fin 10"
    and v0: "Fin (min 10 (max 1 (real (digits_value (first_digits (trim [48])))))) = Fin 1"
    by (simp_all add: trim_def is_ws_def first_digits_def is_digit_def digits_value_def)
  have e12: "getActivitiesScore [107] (\<lambda>t. Content (JStr [49, 50])) [97]
      = Fin (min 10 (max 1 (real (digits_value (first_digits (trim [49, 50]))))))"
    using activities_score_clamped
      [of "[97]" "[107]" "\<lambda>t. Content (JStr [49, 50])" "[49, 50]"] t k d12
    by blast
  have e0: "getActivitiesScore [107] (\<lambda>t. Content (JStr [48])) [97]
      = Fin (min 10 (max 1 (real (digits_value (first_digits (trim [48]))))))"
    using activities_score_clamped
      [of "[97]" "[107]" "\<lambda>t. Content (JStr [48])" "[48]"] t k d0
    by blast
  show ?thesis
    by (intro conjI t k d12 d0 trans [OF e12 v12] trans [OF e0 v0])
qed

text \<open>
  C10, as first stated (an integer replied outside [1,10] is clamped into [1,10]),
  fails for a negative integer: the reply \<open>-12\<close>, which \<open>parseInt\<close> itself reads as
  -12, is scored 10 and not 1, because the regular expression matches the digits alone.
\<close>

theorem negative_reply_not_clamped:
  "parseInt [45, 49, 50] = Fin (- 12)
   \<and> getActivitiesScore [107] (reply [45, 49, 50]) [97] = Fin 10
   \<and> getActivitiesScore [107] (reply [45, 49, 50]) [97] \<noteq> Fin (min 10 (max 1 (- 12)))"
  by (simp add: getActivitiesScore_def reply_def trim_def is_ws_def first_digits_def
      is_digit_def parseInt_def digits_value_def signed_def)

section \<open>The college rater: proofs\<close>

lemma acceptanceNorm_range: "0 \<le> acceptanceNorm v \<and> acceptanceNorm v \<le> 1"
  by (auto simp: acceptanceNorm_def split: option.splits)

lemma college_satNorm_range: "0 \<le> college_satNorm v \<and> college_satNorm v \<le> 1"
  by (auto simp: college_satNorm_def split: option.splits)

lemma college_actNorm_range: "0 \<le> college_actNorm v \<and> college_actNorm v \<le> 1"
  by (auto simp: college_actNorm_def split: option.splits)

lemma college_testNorm_range: "0 \<le> college_testNorm s a \<and> college_testNorm s a \<le> 1"
  unfolding college_testNorm_def
  using college_satNorm_range [of s] college_actNorm_range [of a] by (simp add: max_def)

lemma rateNorm_range: "0 \<le> rateNorm v \<and> rateNorm v \<le> 1"
  by (auto simp: rateNorm_def split: option.splits)

lemma earningsNorm_range: "0 \<le> earningsNorm v \<and> earningsNorm v \<le> 1"
  by (auto simp: earningsNorm_def split: option.splits)

text \<open>Between 5000 and 30000 students the curve stays between 0.8 and 1.\<close>

lemma enrollment_curve_range:
  fixes e :: real
  assumes "5000 \<le> e" and "e \<le> 30000"
  shows "8 / 10 \<le> 8 / 10 + 2 / 10 * (1 - \<bar>e - 15000\<bar> / 15000)
     \<and> 8 / 10 + 2 / 10 * (1 - \<bar>e - 15000\<bar> / 15000) \<le> 1"
proof -
  define t where "t = \<bar>e - 15000\<bar> / 15000"
  have "\<bar>e - 15000\<bar> \<le> 15000" using assms by linarith
  then have "0 \<le> t" and "t \<le> 1" by (simp_all add: t_def)
  then have "8 / 10 \<le> 8 / 10 + 2 / 10 * (1 - t) \<and> 8 / 10 + 2 / 10 * (1 - t) \<le> 1"
    by (simp add: field_simps)
  then show ?thesis by (simp only: t_def)
qed

lemma enrollmentNorm_range: "0 \<le> enrollmentNorm v \<and> enrollmentNorm v \<le> 1"
proof (cases "parseNum v")
  case None
  then show ?thesis by (simp add: enrollmentNorm_def)
next
  case (Some e)
  consider "e \<le> 0" | "5000 \<le> e" "e \<le> 30000" | "30000 < e" | "0 < e" "e < 5000"
    by linarith
  then show ?thesis
  proof cases
    case 2
    then show ?thesis
      using enrollment_curve_range [of e] Some by (simp add: enrollmentNorm_def)
  qed (use Some in \<open>simp_all add: enrollmentNorm_def\<close>)
qed

lemma ratioNorm_range: "0 \<le> ratioNorm v \<and> ratioNorm v \<le> 1"
  by (auto simp: ratioNorm_def split: option.splits)

lemma college_composite_range: "0 \<le> college_composite c \<and> college_composite c \<le> 1"
  unfolding college_composite_def
  using acceptanceNorm_range [of "acceptance_rate c"]
    college_testNorm_range [of "sat_50th_percentile c" "act_50th_percentile c"]
    rateNorm_range [of "graduation_rate c"] rateNorm_range [of "retention_rate c"]
    earningsNorm_range [of "median_earnings_10_years c"]
    enrollmentNorm_range [of "enrollment c"] ratioNorm_range [of "student_faculty_ratio c"]
  by linarith

text \<open>
  C9. For every college input (the college missing altogether, or fields holding any
  number, string or boolean, or missing), \<open>rateCollege\<close> returns an integer between 0
  and 100. It is a function of its argument alone and has a value for every argument.
\<close>

theorem rateCollege_range:
  "\<exists>k. rateCollege college = Fin (of_int k) \<and> 0 \<le> k \<and> k \<le> 100"
proof -
  define c where "c = (case college of None \<Rightarrow> empty_college | Some c \<Rightarrow> c)"
  have "rateCollege college = Fin (of_int \<lfloor>college_composite c * 100 + 1 / 2\<rfloor>)"
    by (simp add: rateCollege_def c_def)
  then show ?thesis
    using round_percent [of "college_composite c"] college_composite_range [of c] by blast
qed

theorem rateCollege_range_witness:
  "\<exists>k. rateCollege (Some selective_college) = Fin (of_int k) \<and> 0 \<le> k \<and> k \<le> 100"
  by (rule rateCollege_range)

end
